theory Spec2Isabelle
  imports Complex_Main
begin

section \<open>The self-healing selector (utils/selectors/self-healing.ts)\<close>

text \<open>
  The class \<open>SelfHealingSelector\<close> resolves a selector on a page, and on failure falls
  back to a cached healed selector and then to a selector suggested by the AI backend.
  The page, the clock, the backend and the file system are outside the class: they are
  the oracles of the record \<open>env\<close>. Everything the class changes is in the record
  \<open>state\<close>, which every operation takes and returns.
\<close>

subsection \<open>Data\<close>

text \<open>The value type of the interface \<open>SelectorHealingCache\<close>.\<close>

record cache_entry =
  healedSelector :: string
  timestamp :: int
  confidence :: rat

type_synonym SelectorHealingCache = "string \<rightharpoonup> cache_entry"

text \<open>
  The file \<open>.selector-cache.json\<close>: absent, holding the JSON text of a cache object
  (modelled by the object it denotes), or holding something that \<open>readFileSync\<close> or
  \<open>JSON.parse\<close> rejects.
\<close>

datatype cache_file = Missing | Stored SelectorHealingCache | Unreadable

text \<open>
  What a Playwright \<open>Locator\<close> is to this class: the selector it was made from.
\<close>

datatype locator = Locator string

text \<open>
  The exceptions of the code: \<open>Error msg\<close> is the \<open>new Error(...)\<close> of \<open>findElement\<close>,
  \<open>DriverError\<close> a throwing \<open>page.screenshot\<close> or \<open>page.evaluate\<close>, \<open>BackendError\<close> a
  throwing \<open>aiClient.askWithImage\<close>, \<open>FsError\<close> a throwing \<open>fs.unlinkSync\<close>.
\<close>

datatype error = Error string | DriverError | BackendError | FsError

text \<open>
  The trace keeps, in order, the actions the properties below speak about: a bounded
  wait on the page with its outcome, a read, a delete and an assignment of
  \<open>this.cache[selector]\<close>, a call of \<open>fs.writeFileSync\<close>, an entry into \<open>healSelector\<close>
  and a call of the backend with its prompt. What the code prints on the console is
  left out.
\<close>

datatype event =
    WaitFor string bool
  | CacheGet string
  | CacheDelete string
  | CachePut string cache_entry
  | WriteFile
  | HealSelector string
  | AskWithImage string

text \<open>
  The oracles. \<open>waitFor n sel\<close> tells whether
  \<open>page.locator(sel).first().waitFor({ timeout: 2000 })\<close> returns (rather than throws)
  when it is the wait number \<open>n\<close> issued on the page, so the page may change from one
  wait to the next. The clock, the screenshot (already in base64), the JSON text of the
  element list that \<open>page.evaluate\<close> returns, and the backend are read at the same
  count; \<open>None\<close> is a throw. The constant arguments of \<open>askWithImage\<close> (media type,
  model, token limit, system prompt) are part of the oracle.
\<close>

record env =
  waitFor :: "nat \<Rightarrow> string \<Rightarrow> bool"
  dateNow :: "nat \<Rightarrow> int"
  screenshot :: "nat \<Rightarrow> string option"
  evaluate :: "nat \<Rightarrow> string option"
  askWithImage :: "nat \<Rightarrow> string \<Rightarrow> string \<Rightarrow> string option"
  writeFileSync_ok :: bool
  unlinkSync_ok :: bool

text \<open>
  The fields \<open>enabled\<close> and \<open>cache\<close> of the object, the content of \<open>cacheFile\<close> on disk,
  the number of waits issued so far, and the trace.
\<close>

record state =
  enabled :: bool
  cache :: SelectorHealingCache
  disk :: cache_file
  waits :: nat
  trace :: "event list"

definition new_events :: "state \<Rightarrow> state \<Rightarrow> event list" where
  "new_events s s' = drop (length (trace s)) (trace s')"

fun is_HealSelector :: "event \<Rightarrow> bool" where
  "is_HealSelector (HealSelector _) = True"
| "is_HealSelector _ = False"

fun is_AskWithImage :: "event \<Rightarrow> bool" where
  "is_AskWithImage (AskWithImage _) = True"
| "is_AskWithImage _ = False"

subsection \<open>Construction, loading and saving\<close>

definition loadCache :: "state \<Rightarrow> state" where
  "loadCache s =
     (case disk s of
        Missing \<Rightarrow> s
      | Stored m \<Rightarrow> s\<lparr>cache := m\<rparr>
      | Unreadable \<Rightarrow> s\<lparr>cache := Map.empty\<rparr>)"

text \<open>
  \<open>new SelfHealingSelector()\<close>, from \<open>process.env\<close> and the disk it finds.
\<close>

definition constructor :: "(string \<rightharpoonup> string) \<Rightarrow> cache_file \<Rightarrow> state" where
  "constructor process_env d =
     loadCache \<lparr>enabled = (process_env ''ENABLE_SELF_HEALING'' \<noteq> Some ''false''),
                cache = Map.empty, disk = d, waits = 0, trace = []\<rparr>"

definition saveCache :: "env \<Rightarrow> state \<Rightarrow> state" where
  "saveCache E s =
     (let s1 = s\<lparr>trace := trace s @ [WriteFile]\<rparr>
      in if writeFileSync_ok E then s1\<lparr>disk := Stored (cache s1)\<rparr> else s1)"

definition clearCache :: "env \<Rightarrow> state \<Rightarrow> (error + unit) \<times> state" where
  "clearCache E s =
     (let s1 = s\<lparr>cache := Map.empty\<rparr>
      in case disk s1 of
           Missing \<Rightarrow> (Inr (), s1)
         | _ \<Rightarrow> if unlinkSync_ok E then (Inr (), s1\<lparr>disk := Missing\<rparr>)
                else (Inl FsError, s1))"

subsection \<open>The bounded wait\<close>

definition waitFor_first :: "env \<Rightarrow> string \<Rightarrow> state \<Rightarrow> bool \<times> state" where
  "waitFor_first E sel s =
     (let ok = waitFor E (waits s) sel
      in (ok, s\<lparr>waits := Suc (waits s), trace := trace s @ [WaitFor sel ok]\<rparr>))"

subsection \<open>healSelector\<close>

text \<open>
  \<open>String.prototype.trim\<close> on the white space of ASCII (characters are bytes; the
  white space beyond ASCII that \<open>trim\<close> also removes is not modelled).
\<close>

definition is_space :: "char \<Rightarrow> bool" where
  "is_space c = (c = CHR 0x09 \<or> c = CHR 0x0A \<or> c = CHR 0x0B \<or> c = CHR 0x0C
                 \<or> c = CHR 0x0D \<or> c = CHR 0x20)"

definition trim :: "string \<Rightarrow> string" where
  "trim s = rev (dropWhile is_space (rev (dropWhile is_space s)))"

definition is_quote :: "char \<Rightarrow> bool" where
  "is_quote c = (c = CHR 0x22 \<or> c = CHR 0x27)"

text \<open>
  \<open>.replace(/^["']|["']$/g, '')\<close>: one quote character is removed at the start if
  there is one, then one at the end of what remains if there is one.
\<close>

definition strip_quotes :: "string \<Rightarrow> string" where
  "strip_quotes s =
     (let s1 = (case s of [] \<Rightarrow> [] | c # cs \<Rightarrow> if is_quote c then cs else s)
      in if s1 \<noteq> [] \<and> is_quote (last s1) then butlast s1 else s1)"

definition nl :: string where
  "nl = [CHR 0x0A]"

definition dq :: string where
  "dq = [CHR 0x22]"

text \<open>
  The template literal \<open>prompt\<close>; \<open>inventory\<close> is \<open>JSON.stringify(pageStructure, null, 2)\<close>.
  A description that is undefined or empty is falsy and adds nothing.
\<close>

definition prompt :: "string \<Rightarrow> string option \<Rightarrow> string \<Rightarrow> string" where
  "prompt originalSelector description inventory =
     nl @ ''The Playwright selector '' @ dq @ originalSelector @ dq @ '' is not working.'' @ nl
     @ (case description of
          None \<Rightarrow> []
        | Some d \<Rightarrow> if d = [] then [] else ''This element should be: '' @ d) @ nl
     @ nl
     @ ''Available elements on the page:'' @ nl
     @ inventory @ nl
     @ nl
     @ ''Based on the screenshot and available elements, suggest a NEW working selector that would find the intended element.'' @ nl
     @ nl
     @ ''Consider:'' @ nl
     @ ''1. data-testid attributes (preferred)'' @ nl
     @ ''2. Accessible roles and labels'' @ nl
     @ ''3. Unique text content'' @ nl
     @ ''4. ID or class combinations'' @ nl
     @ ''5. Parent-child relationships'' @ nl
     @ nl
     @ ''Return ONLY the new selector string, nothing else. Examples:'' @ nl
     @ ''- [data-testid='' @ dq @ ''submit-button'' @ dq @ '']'' @ nl
     @ ''- button:has-text('' @ dq @ ''Submit'' @ dq @ '')'' @ nl
     @ ''- #login-form >> button'' @ nl
     @ ''- [aria-label='' @ dq @ ''Close dialog'' @ dq @ '']'' @ nl
     @ nl
     @ ''NEW SELECTOR:''"

text \<open>
  The body of the outer \<open>try\<close> of \<open>healSelector\<close>: \<open>Inl\<close> is an exception that reaches
  the outer \<open>catch\<close>. The inner \<open>try\<close> around the validating wait is the \<open>if\<close>.
\<close>

definition healSelector_try ::
    "env \<Rightarrow> string \<Rightarrow> string option \<Rightarrow> state \<Rightarrow> (error + string option) \<times> state" where
  "healSelector_try E originalSelector description s =
     (case screenshot E (waits s) of
        None \<Rightarrow> (Inl DriverError, s)
      | Some screenshotBase64 \<Rightarrow>
          (case evaluate E (waits s) of
             None \<Rightarrow> (Inl DriverError, s)
           | Some pageStructure \<Rightarrow>
               (let p = prompt originalSelector description pageStructure;
                    s1 = s\<lparr>trace := trace s @ [AskWithImage p]\<rparr>
                in case askWithImage E (waits s) p screenshotBase64 of
                     None \<Rightarrow> (Inl BackendError, s1)
                   | Some response \<Rightarrow>
                       (let selector = strip_quotes (trim response);
                            (ok, s2) = waitFor_first E selector s1
                        in if ok then (Inr (Some selector), s2) else (Inr None, s2)))))"

definition healSelector ::
    "env \<Rightarrow> string \<Rightarrow> string option \<Rightarrow> state \<Rightarrow> string option \<times> state" where
  "healSelector E originalSelector description s =
     (case healSelector_try E originalSelector description
             (s\<lparr>trace := trace s @ [HealSelector originalSelector]\<rparr>) of
        (Inl err, s') \<Rightarrow> (None, s')
      | (Inr r, s') \<Rightarrow> (r, s'))"

subsection \<open>findElement\<close>

text \<open>
  The end of the \<open>catch\<close> block of \<open>findElement\<close>, from \<open>// Attempt AI healing\<close> on,
  which every path that did not return reaches. \<open>if (healedSelector)\<close> is false for
  \<open>null\<close> and for the empty string.
\<close>

definition findElement_heal ::
    "env \<Rightarrow> string \<Rightarrow> string option \<Rightarrow> state \<Rightarrow> (error + locator) \<times> state" where
  "findElement_heal E selector description s =
     (case healSelector E selector description s of
        (Some healed, s1) \<Rightarrow>
          if healed \<noteq> [] then
            (let entry = \<lparr>healedSelector = healed, timestamp = dateNow E (waits s1),
                          confidence = 8 / 10\<rparr>;
                 s2 = s1\<lparr>cache := (cache s1)(selector \<mapsto> entry),
                         trace := trace s1 @ [CachePut selector entry]\<rparr>
             in (Inr (Locator healed), saveCache E s2))
          else (Inl (Error (''Could not find or heal selector: '' @ selector)), s1)
      | (None, s1) \<Rightarrow> (Inl (Error (''Could not find or heal selector: '' @ selector)), s1))"

definition findElement ::
    "env \<Rightarrow> string \<Rightarrow> string option \<Rightarrow> state \<Rightarrow> (error + locator) \<times> state" where
  "findElement E selector description s =
     (if \<not> enabled s then (Inr (Locator selector), s)
      else
        (case waitFor_first E selector s of
           (True, s1) \<Rightarrow> (Inr (Locator selector), s1)
         | (False, s1) \<Rightarrow>
             (let s2 = s1\<lparr>trace := trace s1 @ [CacheGet selector]\<rparr>
              in case cache s2 selector of
                   None \<Rightarrow> findElement_heal E selector description s2
                 | Some cached \<Rightarrow>
                     (let age = dateNow E (waits s2) - timestamp cached
                      in if age < 3600000 then
                           (case waitFor_first E (healedSelector cached) s2 of
                              (True, s3) \<Rightarrow> (Inr (Locator (healedSelector cached)), s3)
                            | (False, s3) \<Rightarrow>
                                findElement_heal E selector description
                                  (s3\<lparr>cache := (cache s3)(selector := None),
                                      trace := trace s3 @ [CacheDelete selector]\<rparr>))
                         else findElement_heal E selector description s2))))"

subsection \<open>Concrete worlds\<close>

text \<open>
  Small worlds on which the operations are evaluated below: a page on which exactly
  one selector resolves, or none; a clock that reads 5000000 ms and advances by one
  at each wait; a driver that always delivers a screenshot and an empty element list;
  a backend that always gives the same answer, or always throws; a file system whose
  writes succeed.
\<close>

definition ex_page :: "string \<Rightarrow> nat \<Rightarrow> string \<Rightarrow> bool" where
  "ex_page good n sel = (sel = good)"

definition ex_blank :: "nat \<Rightarrow> string \<Rightarrow> bool" where
  "ex_blank n sel = False"

definition ex_clock :: "nat \<Rightarrow> int" where
  "ex_clock n = 5000000 + int n"

definition ex_env :: "(nat \<Rightarrow> string \<Rightarrow> bool) \<Rightarrow> string option \<Rightarrow> env" where
  "ex_env page answer =
     \<lparr>waitFor = page, dateNow = ex_clock,
      screenshot = (\<lambda>n. Some ''iVBORw0KGgo=''), evaluate = (\<lambda>n. Some ''[]''),
      askWithImage = (\<lambda>n p img. answer),
      writeFileSync_ok = True, unlinkSync_ok = True\<rparr>"

definition ex_entry :: "int \<Rightarrow> cache_entry" where
  "ex_entry t = \<lparr>healedSelector = ''#cached'', timestamp = t, confidence = 8 / 10\<rparr>"

definition ex_cache :: "int \<Rightarrow> SelectorHealingCache" where
  "ex_cache t = [''#old'' \<mapsto> ex_entry t]"

definition ex_empty :: SelectorHealingCache where
  "ex_empty = Map.empty"

definition ex_state :: "bool \<Rightarrow> SelectorHealingCache \<Rightarrow> state" where
  "ex_state on c = \<lparr>enabled = on, cache = c, disk = Stored c, waits = 0, trace = []\<rparr>"

definition ex_process_env :: "string \<Rightarrow> string \<rightharpoonup> string" where
  "ex_process_env v = [''ENABLE_SELF_HEALING'' \<mapsto> v]"


definition ex_unset :: "string \<rightharpoonup> string" where
  "ex_unset = Map.empty"

section \<open>Properties\<close>

lemmas ex_defs = ex_page_def ex_blank_def ex_clock_def ex_env_def ex_entry_def ex_cache_def
  ex_empty_def ex_state_def ex_process_env_def ex_unset_def

lemmas run_defs = findElement_def findElement_heal_def healSelector_def healSelector_try_def
  waitFor_first_def saveCache_def new_events_def trim_def strip_quotes_def
  is_space_def is_quote_def Let_def


subsection \<open>The paths of healSelector and findElement\<close>

lemma healSelector_cases:
  assumes "healSelector E X d s = (r, s')"
  obtains
    (early) "r = None" "s' = s\<lparr>trace := trace s @ [HealSelector X]\<rparr>"
  | (backend) p where "r = None"
      "s' = s\<lparr>trace := trace s @ [HealSelector X, AskWithImage p]\<rparr>"
  | (rejected) p z where "r = None" "\<not> waitFor E (waits s) z"
      "s' = s\<lparr>waits := Suc (waits s),
               trace := trace s @ [HealSelector X, AskWithImage p, WaitFor z False]\<rparr>"
  | (validated) p z where "r = Some z" "waitFor E (waits s) z"
      "s' = s\<lparr>waits := Suc (waits s),
               trace := trace s @ [HealSelector X, AskWithImage p, WaitFor z True]\<rparr>"
  using assms
  by (auto simp: healSelector_def healSelector_try_def waitFor_first_def Let_def
           split: option.splits if_splits)

lemma findElement_heal_cases:
  assumes "findElement_heal E X d s = (r, s')"
  obtains
    (failed) evs where "r = Inl (Error (''Could not find or heal selector: '' @ X))"
      "cache s' = cache s" "disk s' = disk s" "enabled s' = enabled s"
      "trace s' = trace s @ HealSelector X # evs"
      "\<forall>e \<in> set evs. \<not> is_HealSelector e" "length (filter is_AskWithImage evs) \<le> 1"
      "\<forall>k e. CachePut k e \<notin> set evs" "\<forall>k. CacheDelete k \<notin> set evs"
  | (healed) p z where "r = Inr (Locator z)" "z \<noteq> []" "waitFor E (waits s) z"
      "cache s' = (cache s)(X \<mapsto> \<lparr>healedSelector = z,
          timestamp = dateNow E (Suc (waits s)), confidence = 8 / 10\<rparr>)"
      "disk s' = (if writeFileSync_ok E then Stored (cache s') else disk s)"
      "enabled s' = enabled s"
      "trace s' = trace s @ [HealSelector X, AskWithImage p, WaitFor z True,
           CachePut X \<lparr>healedSelector = z, timestamp = dateNow E (Suc (waits s)),
             confidence = 8 / 10\<rparr>, WriteFile]"
proof (cases "healSelector E X d s")
  case (Pair h s1)
  from Pair show ?thesis
  proof (cases rule: healSelector_cases)
    case early
    with Pair assms show ?thesis
      by - (rule failed[of "[]"], auto simp: findElement_heal_def)
  next
    case (backend p)
    with Pair assms show ?thesis
      by - (rule failed[of "[AskWithImage p]"], auto simp: findElement_heal_def)
  next
    case (rejected p z)
    with Pair assms show ?thesis
      by - (rule failed[of "[AskWithImage p, WaitFor z False]"],
            auto simp: findElement_heal_def)
  next
    case (validated p z)
    show ?thesis
    proof (cases "z = []")
      case True
      with validated Pair assms show ?thesis
        by - (rule failed[of "[AskWithImage p, WaitFor z True]"],
              auto simp: findElement_heal_def)
    next
      case False
      with validated Pair assms show ?thesis
        by - (rule healed[of z p],
              auto simp: findElement_heal_def saveCache_def Let_def split: if_splits)
    qed
  qed
qed

lemma findElement_paths:
  assumes "findElement E X d s = (r, s')"
  obtains
    (off) "\<not> enabled s" "r = Inr (Locator X)" "s' = s"
  | (primary) "enabled s" "waitFor E (waits s) X" "r = Inr (Locator X)"
      "s' = s\<lparr>waits := Suc (waits s), trace := trace s @ [WaitFor X True]\<rparr>"
  | (replayed) c where "enabled s" "\<not> waitFor E (waits s) X" "cache s X = Some c"
      "dateNow E (Suc (waits s)) - timestamp c < 3600000"
      "waitFor E (Suc (waits s)) (healedSelector c)"
      "r = Inr (Locator (healedSelector c))"
      "s' = s\<lparr>waits := Suc (Suc (waits s)),
               trace := trace s @ [WaitFor X False, CacheGet X,
                                   WaitFor (healedSelector c) True]\<rparr>"
  | (stale) c where "enabled s" "\<not> waitFor E (waits s) X" "cache s X = Some c"
      "dateNow E (Suc (waits s)) - timestamp c < 3600000"
      "\<not> waitFor E (Suc (waits s)) (healedSelector c)"
      "findElement_heal E X d
         (s\<lparr>waits := Suc (Suc (waits s)), cache := (cache s)(X := None),
             trace := trace s @ [WaitFor X False, CacheGet X,
                                 WaitFor (healedSelector c) False, CacheDelete X]\<rparr>)
       = (r, s')"
  | (expired) c where "enabled s" "\<not> waitFor E (waits s) X" "cache s X = Some c"
      "\<not> dateNow E (Suc (waits s)) - timestamp c < 3600000"
      "findElement_heal E X d
         (s\<lparr>waits := Suc (waits s), trace := trace s @ [WaitFor X False, CacheGet X]\<rparr>)
       = (r, s')"
  | (miss) "enabled s" "\<not> waitFor E (waits s) X" "cache s X = None"
      "findElement_heal E X d
         (s\<lparr>waits := Suc (waits s), trace := trace s @ [WaitFor X False, CacheGet X]\<rparr>)
       = (r, s')"
  using assms
  by (auto simp: findElement_def waitFor_first_def Let_def
           split: if_splits option.splits bool.splits)

subsection \<open>The feature flag\<close>

text \<open>
  C10. The constructor enables self-healing exactly when the environment variable
  \<open>ENABLE_SELF_HEALING\<close> is not the string \<open>false\<close>: an unset variable and every other
  value leave it enabled, whatever the cache file holds.
\<close>

theorem constructor_enabled_iff:
  "enabled (constructor process_env d) = (process_env ''ENABLE_SELF_HEALING'' \<noteq> Some ''false'')"
  by (simp add: constructor_def loadCache_def split: cache_file.splits)

theorem constructor_enabled_iff_witness:
  "enabled (constructor ex_unset Missing)
   \<and> enabled (constructor (ex_process_env ''FALSE'') Missing)
   \<and> enabled (constructor (ex_process_env ''0'') Missing)
   \<and> enabled (constructor (ex_process_env ''no'') Missing)
   \<and> \<not> enabled (constructor (ex_process_env ''false'') Missing)"
  using constructor_enabled_iff [of ex_unset Missing]
    constructor_enabled_iff [of "ex_process_env ''FALSE''" Missing]
    constructor_enabled_iff [of "ex_process_env ''0''" Missing]
    constructor_enabled_iff [of "ex_process_env ''no''" Missing]
    constructor_enabled_iff [of "ex_process_env ''false''" Missing]
  by (simp add: ex_process_env_def ex_unset_def)

subsection \<open>The happy path\<close>

text \<open>
  C6. When the wait on the primary selector succeeds, \<open>findElement\<close> returns the locator
  of the primary selector, the cache object and the cache file are as before, and the
  only action of the call is that one wait (none at all when the feature is off): no
  entry into \<open>healSelector\<close>, no call of the backend, no access to the cache.
\<close>

theorem primary_success_is_silent:
  assumes "waitFor E (waits s) X" and "findElement E X d s = (r, s')"
  shows "r = Inr (Locator X) \<and> cache s' = cache s \<and> disk s' = disk s
       \<and> new_events s s' = (if enabled s then [WaitFor X True] else [])"
  using assms by (auto simp: findElement_def waitFor_first_def new_events_def)

theorem primary_success_is_silent_witness:
  "waitFor (ex_env (ex_page ''#old'') None) (waits (ex_state True (ex_cache 0))) ''#old''
   \<and> fst (findElement (ex_env (ex_page ''#old'') None) ''#old'' None (ex_state True (ex_cache 0)))
       = Inr (Locator ''#old'')
   \<and> cache (snd (findElement (ex_env (ex_page ''#old'') None) ''#old'' None
               (ex_state True (ex_cache 0)))) = cache (ex_state True (ex_cache 0))
   \<and> new_events (ex_state True (ex_cache 0))
        (snd (findElement (ex_env (ex_page ''#old'') None) ''#old'' None
               (ex_state True (ex_cache 0)))) = [WaitFor ''#old'' True]"
proof -
  let ?E = "ex_env (ex_page ''#old'') None" and ?S = "ex_state True (ex_cache 0)"
  have ok: "waitFor ?E (waits ?S) ''#old''"
    by (simp add: ex_env_def ex_page_def)
  have on: "enabled ?S"
    by (simp add: ex_state_def)
  from primary_success_is_silent [OF ok surjective_pairing, of None] on ok
  show ?thesis by simp
qed

subsection \<open>Disabled mode\<close>

text \<open>
  C2, as amended. With the feature off, \<open>findElement\<close> returns the locator of the primary
  selector at once and leaves the whole state as it was: no wait on the page, no entry
  into \<open>healSelector\<close>, no access to the cache or its file. It never fails: whether the
  primary selector resolves is not looked at.
\<close>

theorem disabled_returns_locator_unchecked:
  assumes "\<not> enabled s"
  shows "findElement E X d s = (Inr (Locator X), s)
       \<and> new_events s (snd (findElement E X d s)) = []"
  using assms by (simp add: findElement_def new_events_def)

theorem disabled_returns_locator_unchecked_witness:
  "\<not> enabled (ex_state False (ex_cache 0))
   \<and> findElement (ex_env ex_blank None) ''#old'' None (ex_state False (ex_cache 0))
       = (Inr (Locator ''#old''), ex_state False (ex_cache 0))"
proof -
  have off: "\<not> enabled (ex_state False (ex_cache 0))"
    by (simp add: ex_state_def)
  from disabled_returns_locator_unchecked [OF off] off show ?thesis by blast
qed

text \<open>
  C2, as stated, fails: with the feature off and a primary selector that resolves at
  no wait, the call does not fail but returns the locator.
\<close>

theorem disabled_failure_not_surfaced:
  "\<not> enabled (ex_state False ex_empty)
   \<and> \<not> waitFor (ex_env ex_blank None) (waits (ex_state False ex_empty)) ''#old''
   \<and> \<not> isl (fst (findElement (ex_env ex_blank None) ''#old'' None (ex_state False ex_empty)))
   \<and> fst (findElement (ex_env ex_blank None) ''#old'' None (ex_state False ex_empty))
       = Inr (Locator ''#old'')"
  by (simp add: findElement_def ex_defs)

subsection \<open>Only validated selectors are returned or cached\<close>



subsection \<open>A stale cache entry\<close>



subsection \<open>Expiry\<close>

text \<open>
  C5. An entry whose timestamp lies 61 minutes or more before the clock reading of the
  lookup is treated as absent: the call gives the same result, the same trace and the
  same number of waits as on the cache without the entry, and after the failed primary
  wait and the read of the cache it enters \<open>healSelector\<close> directly, without replaying
  the cached selector.
\<close>

theorem expired_entry_treated_as_absent:
  assumes on: "enabled s"
    and primary: "\<not> waitFor E (waits s) X"
    and entry: "cache s X = Some c"
    and old: "timestamp c + 3660000 \<le> dateNow E (Suc (waits s))"
    and res: "findElement E X d s = (r, s')"
    and res0: "findElement E X d (s\<lparr>cache := (cache s)(X := None)\<rparr>) = (r0, s0)"
  shows "r = r0 \<and> trace s' = trace s0 \<and> waits s' = waits s0
       \<and> take 3 (new_events s s') = [WaitFor X False, CacheGet X, HealSelector X]"
  using assms
  by (auto simp: findElement_def findElement_heal_def healSelector_def healSelector_try_def
        waitFor_first_def saveCache_def new_events_def Let_def
      split: option.splits if_splits bool.splits)

theorem expired_entry_treated_as_absent_witness:
  "enabled (ex_state True (ex_cache 0))
   \<and> \<not> waitFor (ex_env ex_blank None) (waits (ex_state True (ex_cache 0))) ''#old''
   \<and> cache (ex_state True (ex_cache 0)) ''#old'' = Some (ex_entry 0)
   \<and> timestamp (ex_entry 0) + 3660000
         \<le> dateNow (ex_env ex_blank None) (Suc (waits (ex_state True (ex_cache 0))))
   \<and> fst (findElement (ex_env ex_blank None) ''#old'' None (ex_state True (ex_cache 0)))
       = fst (findElement (ex_env ex_blank None) ''#old'' None
               ((ex_state True (ex_cache 0))
                  \<lparr>cache := (cache (ex_state True (ex_cache 0)))(''#old'' := None)\<rparr>))
   \<and> take 3 (new_events (ex_state True (ex_cache 0))
        (snd (findElement (ex_env ex_blank None) ''#old'' None (ex_state True (ex_cache 0)))))
       = [WaitFor ''#old'' False, CacheGet ''#old'', HealSelector ''#old'']"
proof -
  let ?E = "ex_env ex_blank None" and ?S = "ex_state True (ex_cache 0)"
  have on: "enabled ?S"
    by (simp add: ex_state_def)
  have primary: "\<not> waitFor ?E (waits ?S) ''#old''"
    by (simp add: ex_defs)
  have entry: "cache ?S ''#old'' = Some (ex_entry 0)"
    by (simp add: ex_defs)
  have old: "timestamp (ex_entry 0) + 3660000 \<le> dateNow ?E (Suc (waits ?S))"
    by (simp add: ex_defs)
  from expired_entry_treated_as_absent
         [OF on primary entry old surjective_pairing surjective_pairing]
  show ?thesis using on primary entry old by blast
qed




subsection \<open>Failure\<close>

text \<open>
  C7, as amended. The only error \<open>findElement\<close> raises is the \<open>Error\<close> whose message is
  \<open>Could not find or heal selector: \<close> followed by the primary selector, and it is
  raised only with the feature on, after the wait on the primary selector failed and
  \<open>healSelector\<close> was entered. The message is made from the primary selector alone.
\<close>

theorem failure_carries_primary_only:
  assumes "findElement E X d s = (Inl err, s')"
  shows "err = Error (''Could not find or heal selector: '' @ X)
       \<and> enabled s
       \<and> WaitFor X False \<in> set (new_events s s')
       \<and> HealSelector X \<in> set (new_events s s')"
  using assms
proof (cases rule: findElement_paths)
  case (stale c)
  from stale(6) show ?thesis
    using stale(1) by (cases rule: findElement_heal_cases) (auto simp: new_events_def)
next
  case (expired c)
  from expired(5) show ?thesis
    using expired(1) by (cases rule: findElement_heal_cases) (auto simp: new_events_def)
next
  case miss
  from miss(4) show ?thesis
    using miss(1) by (cases rule: findElement_heal_cases) (auto simp: new_events_def)
qed auto

theorem failure_carries_primary_only_witness:
  "findElement (ex_env ex_blank (Some ''#z'')) ''#old'' None (ex_state True ex_empty)
     = (Inl (Error ''Could not find or heal selector: #old''),
        snd (findElement (ex_env ex_blank (Some ''#z'')) ''#old'' None (ex_state True ex_empty)))
   \<and> enabled (ex_state True ex_empty)
   \<and> HealSelector ''#old''
       \<in> set (new_events (ex_state True ex_empty)
                (snd (findElement (ex_env ex_blank (Some ''#z'')) ''#old'' None
                       (ex_state True ex_empty))))"
proof -
  let ?E = "ex_env ex_blank (Some ''#z'')" and ?S = "ex_state True ex_empty"
  have "fst (findElement ?E ''#old'' None ?S) = Inl (Error ''Could not find or heal selector: #old'')"
    by (simp add: run_defs ex_defs)
  then have run: "findElement ?E ''#old'' None ?S
      = (Inl (Error ''Could not find or heal selector: #old''),
         snd (findElement ?E ''#old'' None ?S))"
    by (simp add: prod_eq_iff)
  from failure_carries_primary_only [OF run] run show ?thesis by blast
qed

text \<open>
  C7, as stated, fails: two calls that differ only in the candidate the backend
  suggests (\<open>#z\<close> and \<open>#w\<close>, each tried and rejected by its wait) raise the same error,
  whose message names neither.
\<close>

theorem failure_omits_candidate:
  "fst (findElement (ex_env ex_blank (Some ''#z'')) ''#old'' None (ex_state True ex_empty))
     = Inl (Error ''Could not find or heal selector: #old'')
   \<and> WaitFor ''#z'' False
       \<in> set (trace (snd (findElement (ex_env ex_blank (Some ''#z'')) ''#old'' None
                            (ex_state True ex_empty))))
   \<and> fst (findElement (ex_env ex_blank (Some ''#w'')) ''#old'' None (ex_state True ex_empty))
     = Inl (Error ''Could not find or heal selector: #old'')
   \<and> WaitFor ''#w'' False
       \<in> set (trace (snd (findElement (ex_env ex_blank (Some ''#w'')) ''#old'' None
                            (ex_state True ex_empty))))"
  by (simp add: run_defs ex_defs)

text \<open>
  C8. A backend call that throws makes \<open>healSelector\<close> return \<open>null\<close>, with nothing but
  its entry and the call in the trace. A call of \<open>findElement\<close> enters \<open>healSelector\<close> at
  most once and calls the backend at most once; when it fails, it fails with the one
  \<open>Error\<close> of \<open>findElement\<close> and after exactly one entry into \<open>healSelector\<close>; and with a
  backend that throws whenever called, every call that reaches the repair fails so.
\<close>

theorem backend_failure_absorbed:
  assumes res: "findElement E X d s = (r, s')"
  shows "(screenshot E (waits t) = Some img \<and> evaluate E (waits t) = Some elems
            \<and> askWithImage E (waits t) (prompt X d elems) img = None \<longrightarrow>
          fst (healSelector_try E X d t) = Inl BackendError
          \<and> healSelector E X d t
            = (None, t\<lparr>trace := trace t @ [HealSelector X, AskWithImage (prompt X d elems)]\<rparr>))
       \<and> length (filter is_HealSelector (new_events s s')) \<le> 1
       \<and> length (filter is_AskWithImage (new_events s s')) \<le> 1
       \<and> (isl r \<longrightarrow> r = Inl (Error (''Could not find or heal selector: '' @ X))
             \<and> length (filter is_HealSelector (new_events s s')) = 1)
       \<and> ((\<forall>n p i. askWithImage E n p i = None) \<and> HealSelector X \<in> set (new_events s s')
             \<longrightarrow> isl r)"
proof -
  have A: "screenshot E (waits t) = Some img \<and> evaluate E (waits t) = Some elems
            \<and> askWithImage E (waits t) (prompt X d elems) img = None \<longrightarrow>
          fst (healSelector_try E X d t) = Inl BackendError
          \<and> healSelector E X d t
            = (None, t\<lparr>trace := trace t @ [HealSelector X, AskWithImage (prompt X d elems)]\<rparr>)"
    by (simp add: healSelector_def healSelector_try_def Let_def)
  have B: "length (filter is_HealSelector (new_events s s')) \<le> 1
       \<and> length (filter is_AskWithImage (new_events s s')) \<le> 1
       \<and> (isl r \<longrightarrow> r = Inl (Error (''Could not find or heal selector: '' @ X))
             \<and> length (filter is_HealSelector (new_events s s')) = 1)"
    using res
  proof (cases rule: findElement_paths)
    case (stale c)
    from stale(6) show ?thesis
      by (cases rule: findElement_heal_cases)
         (auto simp: new_events_def filter_empty_conv[THEN iffD2])
  next
    case (expired c)
    from expired(5) show ?thesis
      by (cases rule: findElement_heal_cases)
         (auto simp: new_events_def filter_empty_conv[THEN iffD2])
  next
    case miss
    from miss(4) show ?thesis
      by (cases rule: findElement_heal_cases)
         (auto simp: new_events_def filter_empty_conv[THEN iffD2])
  qed (auto simp: new_events_def)
  have down: "fst (findElement_heal E X d u) = Inl (Error (''Could not find or heal selector: '' @ X))"
    if "\<forall>n p i. askWithImage E n p i = None" for u
    using that
    by (auto simp: findElement_heal_def healSelector_def healSelector_try_def Let_def
             split: option.splits)
  have C: "isl r" if d: "\<forall>n p i. askWithImage E n p i = None"
    and h: "HealSelector X \<in> set (new_events s s')"
    using res
  proof (cases rule: findElement_paths)
    case off
    with h show ?thesis by (simp add: new_events_def)
  next
    case primary
    with h show ?thesis by (simp add: new_events_def)
  next
    case (replayed c)
    with h show ?thesis by (simp add: new_events_def)
  next
    case (stale c)
    from down[OF d] stale(6) show ?thesis by (metis fst_conv isl_def)
  next
    case (expired c)
    from down[OF d] expired(5) show ?thesis by (metis fst_conv isl_def)
  next
    case miss
    from down[OF d] miss(4) show ?thesis by (metis fst_conv isl_def)
  qed
  from A B C show ?thesis by blast
qed

theorem backend_failure_absorbed_witness:
  "askWithImage (ex_env ex_blank None) (waits (ex_state True ex_empty))
       (prompt ''#old'' None ''[]'') ''iVBORw0KGgo='' = None
   \<and> fst (healSelector_try (ex_env ex_blank None) ''#old'' None (ex_state True ex_empty))
       = Inl BackendError
   \<and> healSelector (ex_env ex_blank None) ''#old'' None (ex_state True ex_empty)
       = (None, (ex_state True ex_empty)
            \<lparr>trace := trace (ex_state True ex_empty)
               @ [HealSelector ''#old'', AskWithImage (prompt ''#old'' None ''[]'')]\<rparr>)
   \<and> fst (findElement (ex_env ex_blank None) ''#old'' None (ex_state True ex_empty))
       = Inl (Error ''Could not find or heal selector: #old'')
   \<and> length (filter is_HealSelector
        (new_events (ex_state True ex_empty)
           (snd (findElement (ex_env ex_blank None) ''#old'' None (ex_state True ex_empty)))))
       = 1"
proof -
  let ?E = "ex_env ex_blank None" and ?S = "ex_state True ex_empty"
  let ?S' = "snd (findElement ?E ''#old'' None ?S)"
  have shot: "screenshot ?E (waits ?S) = Some ''iVBORw0KGgo=''"
    and elems: "evaluate ?E (waits ?S) = Some ''[]''"
    and down: "askWithImage ?E (waits ?S) (prompt ''#old'' None ''[]'') ''iVBORw0KGgo='' = None"
    and always: "\<forall>n p i. askWithImage ?E n p i = None"
    by (simp_all add: ex_env_def)
  have reached: "HealSelector ''#old'' \<in> set (new_events ?S ?S')"
    by (simp add: run_defs ex_defs)
  from backend_failure_absorbed
         [where E = ?E and X = "''#old''" and d = None and s = ?S and t = ?S
            and img = "''iVBORw0KGgo=''" and elems = "''[]''", OF surjective_pairing]
       shot elems down always reached
  have "fst (healSelector_try ?E ''#old'' None ?S) = Inl BackendError"
    and "healSelector ?E ''#old'' None ?S
          = (None, ?S\<lparr>trace := trace ?S
               @ [HealSelector ''#old'', AskWithImage (prompt ''#old'' None ''[]'')]\<rparr>)"
    and "fst (findElement ?E ''#old'' None ?S)
          = Inl (Error (''Could not find or heal selector: '' @ ''#old''))"
    and "length (filter is_HealSelector (new_events ?S ?S')) = 1"
    by blast+
  with down show ?thesis by simp
qed

subsection \<open>Persistence\<close>

lemma healed_entry_is_saved:
  assumes "findElement_heal E X d s = (Inr l, s')" and "writeFileSync_ok E"
  shows "disk s' = Stored (cache s')"
  using assms(1)
  by (cases rule: findElement_heal_cases) (use assms(2) in auto)

lemma clearCache_leaves_no_entry:
  assumes "clearCache E s = (Inr (), s')"
  shows "cache s' = Map.empty \<and> disk s' = Missing \<and> cache (loadCache s') = Map.empty"
  using assms
  by (auto simp: clearCache_def loadCache_def Let_def split: cache_file.splits if_splits)

text \<open>
  C4. The creation of an entry is followed by \<open>saveCache\<close> and \<open>clearCache\<close> removes the
  file, but the delete of a stale entry is not followed by any write when the repair
  then fails. Here the file and the cache agree before the call; the primary and the
  cached selector both fail and the backend throws, while writes to the file would
  succeed. After the call the entry is gone from the cache, no write was made, and
  loading the file again brings the deleted entry back.
\<close>

theorem stale_delete_not_persisted:
  "writeFileSync_ok (ex_env ex_blank None)
   \<and> cache (ex_state True (ex_cache 4000000)) ''#old'' = Some (ex_entry 4000000)
   \<and> cache (loadCache (ex_state True (ex_cache 4000000))) = cache (ex_state True (ex_cache 4000000))
   \<and> CacheDelete ''#old''
       \<in> set (trace (snd (findElement (ex_env ex_blank None) ''#old'' None
                            (ex_state True (ex_cache 4000000)))))
   \<and> WriteFile
       \<notin> set (trace (snd (findElement (ex_env ex_blank None) ''#old'' None
                            (ex_state True (ex_cache 4000000)))))
   \<and> cache (snd (findElement (ex_env ex_blank None) ''#old'' None
                   (ex_state True (ex_cache 4000000)))) ''#old'' = None
   \<and> cache (loadCache (snd (findElement (ex_env ex_blank None) ''#old'' None
                   (ex_state True (ex_cache 4000000))))) ''#old'' = Some (ex_entry 4000000)"
  by (simp add: run_defs ex_defs loadCache_def)

end
